theory Spec2Isabelle
  imports Main "HOL-Library.Word"
begin

unbundle bit_operations_syntax

section \<open>The supervisor script \<open>scripts/run.py\<close>\<close>

text \<open>
  The script is a class \<open>AgentManager\<close> with two attributes, \<open>self.vnc\<close> and
  \<open>self.agent\<close>, that hold \<open>subprocess.Popen\<close> handles. Its methods only call the
  operating system: \<open>os.kill\<close>, \<open>os.makedirs\<close>, \<open>os.chmod\<close>, \<open>open\<close>,
  \<open>subprocess.run\<close>, \<open>subprocess.Popen\<close>, \<open>Popen.wait\<close> and the logger.

  The embedding is a state-and-exception monad over a \<open>world\<close>: the two attributes, the
  part of the file system the script touches, and the trace of the calls made so far, in
  order. What the operating system answers to a call (an error, a process id, an exit
  status, captured output) is read from an \<open>env\<close> record, over which every theorem is
  universally quantified.
\<close>

subsection \<open>Values\<close>

text \<open>A byte string is a list of 8-bit characters. A Python \<open>str\<close> is a list of code
  points; \<open>os.environ\<close> decodes a byte of the environment that is not valid UTF-8 to a
  lone surrogate (\<open>U+DC80\<close> to \<open>U+DCFF\<close>). The literals of the script (paths, commands,
  messages) are ASCII and are written as they stand.\<close>

type_synonym bytes = string

type_synonym str = "nat list"

text \<open>The \<open>str\<close> of an ASCII literal.\<close>

definition str_of :: "string \<Rightarrow> str" where
  "str_of s = map of_char s"

type_synonym mode_t = "32 word"

text \<open>An octal literal \<open>0o700\<close> is written \<open>octal [7, 0, 0]\<close>.\<close>

definition octal :: "nat list \<Rightarrow> nat" where
  "octal ds = foldl (\<lambda>a d. 8 * a + d) 0 ds"

text \<open>The signals the script names.\<close>

datatype signal_t = SIGHUP | SIGINT | SIGTERM

text \<open>The second argument of a signal handler (the interrupted stack frame); never used.\<close>

type_synonym frame = unit

text \<open>
  The exceptions that can arise: a missing attribute, a missing key of \<open>os.environ\<close>,
  a \<open>str\<close> that cannot be encoded, and the subclasses of \<open>OSError\<close> that the system
  calls raise.
\<close>

datatype exn =
    AttributeError string
  | KeyError string
  | UnicodeEncodeError
  | FileNotFoundError
  | FileExistsError
  | IsADirectoryError
  | PermissionError
  | ProcessLookupError
  | OSError

text \<open>\<open>except Exception\<close> catches the subclasses of \<open>Exception\<close>; all of the above are.\<close>

fun is_Exception :: "exn \<Rightarrow> bool" where
  "is_Exception (AttributeError a) = True"
| "is_Exception (KeyError k) = True"
| "is_Exception UnicodeEncodeError = True"
| "is_Exception FileNotFoundError = True"
| "is_Exception FileExistsError = True"
| "is_Exception IsADirectoryError = True"
| "is_Exception PermissionError = True"
| "is_Exception ProcessLookupError = True"
| "is_Exception OSError = True"

text \<open>A \<open>Popen\<close> handle. Such an object defines neither \<open>__bool__\<close> nor \<open>__len__\<close>, so it is
  true in a condition.\<close>

record popen =
  pid :: nat

definition truthy :: "popen \<Rightarrow> bool" where
  "truthy h = True"

text \<open>The \<open>CompletedProcess\<close> that \<open>subprocess.run\<close> returns.\<close>

record completed =
  returncode :: int
  stdout :: bytes

datatype node = Dir mode_t | File mode_t bytes

text \<open>The calls the script makes, as they appear in the trace.\<close>

datatype event =
    Log_info string
  | Log_error string exn
  | Kill nat signal_t
  | Run "string list" "bytes option"
  | Makedirs string int bool
  | Open_wb string
  | Write string bytes
  | Chmod string mode_t
  | Popen "string list"
  | Wait nat

subsection \<open>The world and the environment\<close>

text \<open>An attribute that was never assigned is \<open>None\<close>: reading it raises
  \<open>AttributeError\<close>.\<close>

record world =
  agent :: "popen option"
  vnc :: "popen option"
  fs :: "string \<rightharpoonup> node"
  trace :: "event list"

record env =
  environ :: "string \<rightharpoonup> str"
  umask :: mode_t
  mkdir_error :: "string \<Rightarrow> exn option"
  open_error :: "string \<Rightarrow> exn option"
  write_error :: "string \<Rightarrow> exn option"
  chmod_error :: "string \<Rightarrow> exn option"
  run_result :: "string list \<Rightarrow> bytes option \<Rightarrow> exn + completed"
  popen_result :: "string list \<Rightarrow> exn + nat"
  kill_error :: "nat \<Rightarrow> exn option"
  exit_status :: "nat \<Rightarrow> int option"

subsection \<open>Control flow\<close>

text \<open>A statement returns, raises, or blocks forever (a \<open>wait\<close> on a process that never
  exits). The world it leaves behind is kept in all three cases.\<close>

datatype 'a outcome = Return 'a | Raise exn | Blocked

type_synonym 'a py = "world \<Rightarrow> 'a outcome \<times> world"

definition ret :: "'a \<Rightarrow> 'a py" where
  "ret x w = (Return x, w)"

definition raise :: "exn \<Rightarrow> 'a py" where
  "raise e w = (Raise e, w)"

definition block :: "'a py" where
  "block w = (Blocked, w)"

definition bnd :: "'a py \<Rightarrow> ('a \<Rightarrow> 'b py) \<Rightarrow> 'b py" where
  "bnd m f w =
     (case m w of
        (Return x, w') \<Rightarrow> f x w'
      | (Raise e, w') \<Rightarrow> (Raise e, w')
      | (Blocked, w') \<Rightarrow> (Blocked, w'))"

text \<open>\<open>try: body  except Exception as e: handler\<close>\<close>

definition try_except :: "unit py \<Rightarrow> (exn \<Rightarrow> unit py) \<Rightarrow> unit py" where
  "try_except body handler w =
     (case body w of
        (Return x, w') \<Rightarrow> (Return x, w')
      | (Raise e, w') \<Rightarrow> (if is_Exception e then handler e w' else (Raise e, w'))
      | (Blocked, w') \<Rightarrow> (Blocked, w'))"

definition emit :: "event \<Rightarrow> unit py" where
  "emit ev w = (Return (), w\<lparr>trace := trace w @ [ev]\<rparr>)"

subsection \<open>The library calls\<close>

definition logger_info :: "string \<Rightarrow> unit py" where
  "logger_info msg = emit (Log_info msg)"

definition logger_error :: "string \<Rightarrow> exn \<Rightarrow> unit py" where
  "logger_error msg e = emit (Log_error msg e)"

definition get_agent :: "popen py" where
  "get_agent w = (case agent w of None \<Rightarrow> (Raise (AttributeError ''agent''), w) | Some h \<Rightarrow> (Return h, w))"

definition get_vnc :: "popen py" where
  "get_vnc w = (case vnc w of None \<Rightarrow> (Raise (AttributeError ''vnc''), w) | Some h \<Rightarrow> (Return h, w))"

definition set_agent :: "popen \<Rightarrow> unit py" where
  "set_agent h w = (Return (), w\<lparr>agent := Some h\<rparr>)"

definition set_vnc :: "popen \<Rightarrow> unit py" where
  "set_vnc h w = (Return (), w\<lparr>vnc := Some h\<rparr>)"

definition os_kill :: "env \<Rightarrow> nat \<Rightarrow> signal_t \<Rightarrow> unit py" where
  "os_kill E p sig =
     bnd (emit (Kill p sig)) (\<lambda>_.
       case kill_error E p of None \<Rightarrow> ret () | Some e \<Rightarrow> raise e)"

text \<open>\<open>subprocess.run\<close> without \<open>check=True\<close>: it raises only when the command cannot be
  launched, and returns the exit status otherwise. The \<open>stdout\<close> of the result is what
  \<open>capture_output=True\<close> captured; the calls that do not capture never read it.\<close>

definition subprocess_run :: "env \<Rightarrow> string list \<Rightarrow> bytes option \<Rightarrow> completed py" where
  "subprocess_run E args inp =
     bnd (emit (Run args inp)) (\<lambda>_.
       case run_result E args inp of Inl e \<Rightarrow> raise e | Inr c \<Rightarrow> ret c)"

definition subprocess_Popen :: "env \<Rightarrow> string list \<Rightarrow> popen py" where
  "subprocess_Popen E args =
     bnd (emit (Popen args)) (\<lambda>_.
       case popen_result E args of Inl e \<Rightarrow> raise e | Inr p \<Rightarrow> ret \<lparr>pid = p\<rparr>)"

definition popen_wait :: "env \<Rightarrow> popen \<Rightarrow> int py" where
  "popen_wait E h =
     bnd (emit (Wait (pid h))) (\<lambda>_.
       case exit_status E (pid h) of None \<Rightarrow> block | Some c \<Rightarrow> ret c)"

definition environ_get :: "env \<Rightarrow> string \<Rightarrow> str py" where
  "environ_get E k = (case environ E k of None \<Rightarrow> raise (KeyError k) | Some v \<Rightarrow> ret v)"

text \<open>
  \<open>str.encode()\<close>: the UTF-8 encoding, with strict error handling. A surrogate
  (\<open>U+D800\<close> to \<open>U+DFFF\<close>) has no encoding, and the call raises \<open>UnicodeEncodeError\<close>.
  A \<open>str\<close> holds no value above \<open>U+10FFFF\<close>; the model gives such a value no encoding.
\<close>

definition utf8_char :: "nat \<Rightarrow> bytes option" where
  "utf8_char cp =
     (if cp < 128 then Some [char_of cp]
      else if cp < 2048 then Some [char_of (192 + cp div 64), char_of (128 + cp mod 64)]
      else if 55296 \<le> cp \<and> cp < 57344 then None
      else if cp < 65536 then
        Some [char_of (224 + cp div 4096), char_of (128 + cp div 64 mod 64),
              char_of (128 + cp mod 64)]
      else if cp < 1114112 then
        Some [char_of (240 + cp div 262144), char_of (128 + cp div 4096 mod 64),
              char_of (128 + cp div 64 mod 64), char_of (128 + cp mod 64)]
      else None)"

fun utf8 :: "str \<Rightarrow> bytes option" where
  "utf8 [] = Some []"
| "utf8 (cp # cps) =
     (case utf8_char cp of
        None \<Rightarrow> None
      | Some b \<Rightarrow> (case utf8 cps of None \<Rightarrow> None | Some bs \<Rightarrow> Some (b @ bs)))"

definition str_encode :: "str \<Rightarrow> bytes py" where
  "str_encode s = (case utf8 s of None \<Rightarrow> raise UnicodeEncodeError | Some b \<Rightarrow> ret b)"

definition set_node :: "string \<Rightarrow> node \<Rightarrow> unit py" where
  "set_node path n w = (Return (), w\<lparr>fs := (fs w)(path \<mapsto> n)\<rparr>)"

definition get_node :: "string \<Rightarrow> node option py" where
  "get_node path w = (Return (fs w path), w)"

text \<open>
  \<open>os.makedirs(name, mode, exist_ok)\<close>: an existing directory is accepted when
  \<open>exist_ok\<close> is set, any other existing node is a \<open>FileExistsError\<close>, and a new
  directory gets the mode \<open>mode & ~umask & 0o1777\<close>. Creating the missing ancestors is
  part of what \<open>mkdir_error\<close> answers for; only the leaf is recorded.
\<close>

definition os_makedirs :: "env \<Rightarrow> string \<Rightarrow> int \<Rightarrow> bool \<Rightarrow> unit py" where
  "os_makedirs E name mode exist_ok =
     bnd (emit (Makedirs name mode exist_ok)) (\<lambda>_.
     bnd (get_node name) (\<lambda>n.
       case n of
         Some (Dir m) \<Rightarrow> if exist_ok then ret () else raise FileExistsError
       | Some (File m c) \<Rightarrow> raise FileExistsError
       | None \<Rightarrow>
           (case mkdir_error E name of
              Some e \<Rightarrow> raise e
            | None \<Rightarrow>
                set_node name
                  (Dir (word_of_int mode AND NOT (umask E) AND word_of_nat (octal [1, 7, 7, 7]))))))"

text \<open>\<open>open(path, 'wb')\<close>: creates the file with mode \<open>0o666 & ~umask\<close>, or empties an
  existing one and keeps its mode.\<close>

definition open_wb :: "env \<Rightarrow> string \<Rightarrow> unit py" where
  "open_wb E path =
     bnd (emit (Open_wb path)) (\<lambda>_.
       case open_error E path of
         Some e \<Rightarrow> raise e
       | None \<Rightarrow>
           bnd (get_node path) (\<lambda>n.
             case n of
               Some (Dir m) \<Rightarrow> raise IsADirectoryError
             | Some (File m c) \<Rightarrow> set_node path (File m [])
             | None \<Rightarrow> set_node path (File (word_of_nat (octal [6, 6, 6]) AND NOT (umask E)) [])))"

definition file_write :: "env \<Rightarrow> string \<Rightarrow> bytes \<Rightarrow> unit py" where
  "file_write E path data =
     bnd (emit (Write path data)) (\<lambda>_.
       case write_error E path of
         Some e \<Rightarrow> raise e
       | None \<Rightarrow>
           bnd (get_node path) (\<lambda>n.
             case n of
               Some (File m c) \<Rightarrow> set_node path (File m (c @ data))
             | Some (Dir m) \<Rightarrow> raise IsADirectoryError
             | None \<Rightarrow> raise FileNotFoundError))"

definition os_chmod :: "env \<Rightarrow> string \<Rightarrow> mode_t \<Rightarrow> unit py" where
  "os_chmod E path mode =
     bnd (emit (Chmod path mode)) (\<lambda>_.
       case chmod_error E path of
         Some e \<Rightarrow> raise e
       | None \<Rightarrow>
           bnd (get_node path) (\<lambda>n.
             case n of
               Some (File m c) \<Rightarrow> set_node path (File mode c)
             | Some (Dir m) \<Rightarrow> set_node path (Dir mode)
             | None \<Rightarrow> raise FileNotFoundError))"

subsection \<open>The methods of \<open>AgentManager\<close>\<close>

definition rm_lock :: "string list" where
  "rm_lock = [''sudo'', ''rm'', ''-f'', ''/tmp/.X5-lock'']"

definition rm_socket :: "string list" where
  "rm_socket = [''sudo'', ''rm'', ''-f'', ''/tmp/.X11-unix/X5'']"

definition stop :: "env \<Rightarrow> signal_t \<Rightarrow> frame \<Rightarrow> unit py" where
  "stop E signum frame =
     bnd (logger_info ''Stop agent...'') (\<lambda>_.
     bnd (try_except
            (bnd get_agent (\<lambda>a.
               if truthy a then os_kill E (pid a) SIGTERM else ret ()))
            (\<lambda>e. logger_error ''Error at stop agent'' e)) (\<lambda>_.
     bnd (logger_info ''Stop vnc...'') (\<lambda>_.
     bnd (try_except
            (bnd get_vnc (\<lambda>v.
               if truthy v then os_kill E (pid v) SIGTERM else ret ()))
            (\<lambda>e. logger_error ''Error at stop vnc'' e)) (\<lambda>_.
     try_except
       (bnd (subprocess_run E rm_lock None) (\<lambda>_.
        bnd (subprocess_run E rm_socket None) (\<lambda>_. ret ())))
       (\<lambda>e. logger_error ''Error at cleanup X'' e)))))"

text \<open>\<open>__init__\<close> registers \<open>self.stop\<close> for three signals: the table of handlers.\<close>

definition AgentManager_init :: "env \<Rightarrow> signal_t \<rightharpoonup> (signal_t \<Rightarrow> frame \<Rightarrow> unit py)" where
  "AgentManager_init E = [SIGINT \<mapsto> stop E, SIGHUP \<mapsto> stop E, SIGTERM \<mapsto> stop E]"

definition vnc_dir :: string where
  "vnc_dir = ''/home/user/.vnc''"

definition vnc_passwd_file :: string where
  "vnc_passwd_file = ''/home/user/.vnc/passwd''"

definition vncpasswd_cmd :: "string list" where
  "vncpasswd_cmd = [''/usr/bin/vncpasswd'', ''-f'']"

definition vncserver_cmd :: "string list" where
  "vncserver_cmd = [''/usr/bin/vncserver'', ''-localhost'', ''no'', ''-xstartup'', ''/usr/bin/openbox'', '':5'']"

definition agent_cmd :: "string list" where
  "agent_cmd = [''wine'', ''cmd'', ''/k'', ''/home/user/matrix-wechat-agent/matrix-wechat-agent.exe'']"

definition start_vnc :: "env \<Rightarrow> unit py" where
  "start_vnc E =
     bnd (logger_info ''Start vnc...'') (\<lambda>_.
     bnd (os_makedirs E vnc_dir 755 True) (\<lambda>_.
     bnd (environ_get E ''VNCPASS'') (\<lambda>p.
     bnd (str_encode p) (\<lambda>inp.
     bnd (subprocess_run E vncpasswd_cmd (Some inp)) (\<lambda>passwd_output.
     bnd (open_wb E vnc_passwd_file) (\<lambda>_.
     bnd (file_write E vnc_passwd_file (stdout passwd_output)) (\<lambda>_.
     bnd (os_chmod E vnc_passwd_file (word_of_nat (octal [7, 0, 0]))) (\<lambda>_.
     bnd (subprocess_Popen E vncserver_cmd) (\<lambda>h.
     set_vnc h)))))))))"

definition start_agent :: "env \<Rightarrow> unit py" where
  "start_agent E =
     bnd (logger_info ''Start agent...'') (\<lambda>_.
     bnd (subprocess_Popen E agent_cmd) (\<lambda>h.
     bnd (set_agent h) (\<lambda>_.
     bnd get_agent (\<lambda>a.
     bnd (popen_wait E a) (\<lambda>_. ret ())))))"

definition start :: "env \<Rightarrow> unit py" where
  "start E = bnd (start_vnc E) (\<lambda>_. start_agent E)"

subsection \<open>Observations on traces\<close>

text \<open>The events a call has added to the trace.\<close>

definition new_events :: "world \<Rightarrow> world \<Rightarrow> event list" where
  "new_events w w' = drop (length (trace w)) (trace w')"

definition add_trace :: "event list \<Rightarrow> world \<Rightarrow> world" where
  "add_trace evs w = w\<lparr>trace := trace w @ evs\<rparr>"

fun is_log :: "event \<Rightarrow> bool" where
  "is_log (Log_info m) = True"
| "is_log (Log_error m e) = True"
| "is_log _ = False"

fun is_kill :: "event \<Rightarrow> bool" where
  "is_kill (Kill p s) = True"
| "is_kill _ = False"

fun is_run :: "event \<Rightarrow> bool" where
  "is_run (Run a i) = True"
| "is_run _ = False"

fun is_spawn :: "event \<Rightarrow> bool" where
  "is_spawn (Run a i) = True"
| "is_spawn (Popen a) = True"
| "is_spawn _ = False"

fun is_popen :: "event \<Rightarrow> bool" where
  "is_popen (Popen a) = True"
| "is_popen _ = False"

text \<open>The attempted effects: everything but the log lines.\<close>

definition effects :: "event list \<Rightarrow> event list" where
  "effects evs = filter (\<lambda>ev. \<not> is_log ev) evs"

text \<open>The termination signal sent for a handle, if it is set.\<close>

definition kill_of :: "popen option \<Rightarrow> event list" where
  "kill_of h = (case h of None \<Rightarrow> [] | Some p \<Rightarrow> [Kill (pid p) SIGTERM])"

text \<open>What each \<open>try\<close> block of \<open>stop\<close> adds to the trace.\<close>

definition kill_block :: "env \<Rightarrow> string \<Rightarrow> string \<Rightarrow> popen option \<Rightarrow> event list" where
  "kill_block E msg attr h =
     (case h of
        None \<Rightarrow> [Log_error msg (AttributeError attr)]
      | Some p \<Rightarrow>
          Kill (pid p) SIGTERM #
          (case kill_error E (pid p) of None \<Rightarrow> [] | Some e \<Rightarrow> [Log_error msg e]))"

definition cleanup_block :: "env \<Rightarrow> event list" where
  "cleanup_block E =
     Run rm_lock None #
     (case run_result E rm_lock None of
        Inl e \<Rightarrow> [Log_error ''Error at cleanup X'' e]
      | Inr c \<Rightarrow>
          Run rm_socket None #
          (case run_result E rm_socket None of
             Inl e \<Rightarrow> [Log_error ''Error at cleanup X'' e]
           | Inr c' \<Rightarrow> []))"

definition stop_trace :: "env \<Rightarrow> world \<Rightarrow> event list" where
  "stop_trace E w =
     Log_info ''Stop agent...'' # kill_block E ''Error at stop agent'' ''agent'' (agent w) @
     Log_info ''Stop vnc...'' # kill_block E ''Error at stop vnc'' ''vnc'' (vnc w) @
     cleanup_block E"

subsection \<open>Observations on start-up\<close>

text \<open>The mode a directory created by \<open>os.makedirs(..., mode=755)\<close> gets.\<close>

definition created_dir_mode :: "env \<Rightarrow> mode_t" where
  "created_dir_mode E = word_of_int 755 AND NOT (umask E) AND word_of_nat (octal [1, 7, 7, 7])"

text \<open>The state directory exists as a directory, or is absent and can be created.\<close>

definition dir_ensurable :: "env \<Rightarrow> world \<Rightarrow> bool" where
  "dir_ensurable E w =
     (case fs w vnc_dir of
        None \<Rightarrow> mkdir_error E vnc_dir = None
      | Some (Dir m) \<Rightarrow> True
      | Some (File m c) \<Rightarrow> False)"

text \<open>The credential file can be opened, written and have its mode changed.\<close>

definition passwd_writable :: "env \<Rightarrow> world \<Rightarrow> bool" where
  "passwd_writable E w =
     (open_error E vnc_passwd_file = None \<and>
      write_error E vnc_passwd_file = None \<and>
      chmod_error E vnc_passwd_file = None \<and>
      (case fs w vnc_passwd_file of
         None \<Rightarrow> True
       | Some (Dir m) \<Rightarrow> False
       | Some (File m c) \<Rightarrow> True))"

definition after_makedirs :: "env \<Rightarrow> world \<Rightarrow> world" where
  "after_makedirs E w =
     (case fs w vnc_dir of
        None \<Rightarrow> w\<lparr>fs := (fs w)(vnc_dir \<mapsto> Dir (created_dir_mode E))\<rparr>
      | Some n \<Rightarrow> w)"

text \<open>The trace and the world of a run of \<open>start_vnc\<close> in which every call succeeds.\<close>

definition start_vnc_trace :: "bytes \<Rightarrow> completed \<Rightarrow> event list" where
  "start_vnc_trace inp c =
     [Log_info ''Start vnc...'',
      Makedirs vnc_dir 755 True,
      Run vncpasswd_cmd (Some inp),
      Open_wb vnc_passwd_file,
      Write vnc_passwd_file (stdout c),
      Chmod vnc_passwd_file (word_of_nat (octal [7, 0, 0])),
      Popen vncserver_cmd]"

definition after_start_vnc :: "env \<Rightarrow> bytes \<Rightarrow> completed \<Rightarrow> nat \<Rightarrow> world \<Rightarrow> world" where
  "after_start_vnc E inp c n w =
     (after_makedirs E w)
       \<lparr>vnc := Some \<lparr>pid = n\<rparr>,
        fs := (fs (after_makedirs E w))
                (vnc_passwd_file \<mapsto> File (word_of_nat (octal [7, 0, 0])) (stdout c)),
        trace := trace w @ start_vnc_trace inp c\<rparr>"

text \<open>A statement that leaves an observation of the world unchanged, and one that only
  extends the trace.\<close>

definition keeps :: "(world \<Rightarrow> 'a) \<Rightarrow> 'b py \<Rightarrow> bool" where
  "keeps g m = (\<forall>w. g (snd (m w)) = g w)"

definition grows :: "'b py \<Rightarrow> bool" where
  "grows m = (\<forall>w. \<exists>evs. trace (snd (m w)) = trace w @ evs)"

text \<open>The same environment, but every command that runs exits with status \<open>rc\<close>.\<close>

definition with_returncode :: "int \<Rightarrow> env \<Rightarrow> env" where
  "with_returncode rc E =
     E\<lparr>run_result := (\<lambda>a i. case run_result E a i of
                                 Inl e \<Rightarrow> Inl e
                               | Inr c \<Rightarrow> Inr (c\<lparr>returncode := rc\<rparr>))\<rparr>"

subsection \<open>Concrete environments and worlds\<close>

text \<open>An environment in which every call succeeds, with the password \<open>secret\<close>.\<close>

definition env_ok :: env where
  "env_ok =
     \<lparr>environ = [''VNCPASS'' \<mapsto> str_of ''secret''],
      umask = 18,
      mkdir_error = (\<lambda>p. None),
      open_error = (\<lambda>p. None),
      write_error = (\<lambda>p. None),
      chmod_error = (\<lambda>p. None),
      run_result = (\<lambda>a i. Inr \<lparr>returncode = 0, stdout = ''hash''\<rparr>),
      popen_result = (\<lambda>a. Inr (if a = vncserver_cmd then 100 else 101)),
      kill_error = (\<lambda>p. None),
      exit_status = (\<lambda>p. Some 0)\<rparr>"

text \<open>No \<open>sudo\<close> on the machine: launching a removal command raises.\<close>

definition env_no_sudo :: env where
  "env_no_sudo = env_ok\<lparr>run_result := (\<lambda>a i. Inl FileNotFoundError)\<rparr>"

text \<open>The lock-file removal cannot be launched (the process table is full); the children
  are gone already.\<close>

definition env_no_fork :: env where
  "env_no_fork =
     env_ok\<lparr>run_result := (\<lambda>a i. if a = rm_lock then Inl OSError
                                  else Inr \<lparr>returncode = 0, stdout = []\<rparr>),
            kill_error := (\<lambda>p. Some ProcessLookupError)\<rparr>"

definition world0 :: world where
  "world0 = \<lparr>agent = None, vnc = None, fs = Map.empty, trace = []\<rparr>"

definition world_vnc_only :: world where
  "world_vnc_only = world0\<lparr>vnc := Some \<lparr>pid = 100\<rparr>\<rparr>"

definition world_running :: world where
  "world_running = world0\<lparr>vnc := Some \<lparr>pid = 100\<rparr>, agent := Some \<lparr>pid = 101\<rparr>\<rparr>"

text \<open>The password variable is not set.\<close>

definition env_no_password :: env where
  "env_no_password = env_ok\<lparr>environ := Map.empty\<rparr>"

text \<open>The hashing utility fails: exit status 1 and nothing on standard output.\<close>

definition env_hash_fails :: env where
  "env_hash_fails = env_ok\<lparr>run_result := (\<lambda>a i. Inr \<lparr>returncode = 1, stdout = []\<rparr>)\<rparr>"

text \<open>The application crashes with exit status 3.\<close>

definition env_agent_crash :: env where
  "env_agent_crash = env_ok\<lparr>exit_status := (\<lambda>p. Some 3)\<rparr>"

text \<open>The password holds a byte that is not UTF-8: \<open>os.environ\<close> gives the lone
  surrogate \<open>U+DCFF\<close> for the byte \<open>0xFF\<close>.\<close>

definition env_bad_password :: env where
  "env_bad_password = env_ok\<lparr>environ := [''VNCPASS'' \<mapsto> [56575]]\<rparr>"

text \<open>The state directory is there already, with mode \<open>0o755\<close>.\<close>

definition world_with_dir :: world where
  "world_with_dir = world0\<lparr>fs := [vnc_dir \<mapsto> Dir 493]\<rparr>"

section \<open>Basic facts\<close>

lemma is_Exception_all: "is_Exception e"
  by (cases e) simp_all

lemma add_trace_simps:
  "agent (add_trace evs w) = agent w"
  "vnc (add_trace evs w) = vnc w"
  "fs (add_trace evs w) = fs w"
  "trace (add_trace evs w) = trace w @ evs"
  "add_trace evs (add_trace evs' w) = add_trace (evs' @ evs) w"
  by (simp_all add: add_trace_def)

lemma new_events_add_trace: "new_events w (add_trace evs w) = evs"
  by (simp add: new_events_def add_trace_def)

lemma bnd_Return: "m w = (Return x, w') \<Longrightarrow> bnd m f w = f x w'"
  by (simp add: bnd_def)

lemma bnd_emit: "bnd (emit ev) f w = f () (add_trace [ev] w)"
  by (simp add: bnd_def emit_def add_trace_def)

lemma bnd_info: "bnd (logger_info m) f w = f () (add_trace [Log_info m] w)"
  by (simp add: logger_info_def bnd_emit)

lemma logger_error_eq: "logger_error m e w = (Return (), add_trace [Log_error m e] w)"
  by (simp add: logger_error_def emit_def add_trace_def)

lemma os_kill_eq:
  "os_kill E p s w =
     ((case kill_error E p of None \<Rightarrow> Return () | Some e \<Rightarrow> Raise e), add_trace [Kill p s] w)"
  by (simp add: os_kill_def bnd_emit ret_def raise_def split: option.splits)

lemma subprocess_run_eq:
  "subprocess_run E a i w =
     ((case run_result E a i of Inl e \<Rightarrow> Raise e | Inr c \<Rightarrow> Return c), add_trace [Run a i] w)"
  by (simp add: subprocess_run_def bnd_emit ret_def raise_def split: sum.splits)

section \<open>Shutdown\<close>

lemma kill_agent_block:
  "try_except (bnd get_agent (\<lambda>a. if truthy a then os_kill E (pid a) SIGTERM else ret ()))
     (\<lambda>e. logger_error msg e) w = (Return (), add_trace (kill_block E msg ''agent'' (agent w)) w)"
  by (simp add: try_except_def bnd_def get_agent_def truthy_def os_kill_eq logger_error_eq
      kill_block_def add_trace_simps is_Exception_all split: option.splits)

lemma kill_vnc_block:
  "try_except (bnd get_vnc (\<lambda>a. if truthy a then os_kill E (pid a) SIGTERM else ret ()))
     (\<lambda>e. logger_error msg e) w = (Return (), add_trace (kill_block E msg ''vnc'' (vnc w)) w)"
  by (simp add: try_except_def bnd_def get_vnc_def truthy_def os_kill_eq logger_error_eq
      kill_block_def add_trace_simps is_Exception_all split: option.splits)

lemma cleanup_block_eq:
  "try_except
     (bnd (subprocess_run E rm_lock None) (\<lambda>_.
      bnd (subprocess_run E rm_socket None) (\<lambda>_. ret ())))
     (\<lambda>e. logger_error ''Error at cleanup X'' e) w = (Return (), add_trace (cleanup_block E) w)"
  by (simp add: try_except_def bnd_def subprocess_run_eq logger_error_eq ret_def
      cleanup_block_def add_trace_simps is_Exception_all split: sum.splits)

text \<open>The whole of \<open>stop\<close>: it returns, and it only extends the trace.\<close>

lemma stop_eq: "stop E sig fr w = (Return (), add_trace (stop_trace E w) w)"
  by (simp add: stop_def bnd_info bnd_Return [OF kill_agent_block] bnd_Return [OF kill_vnc_block]
      cleanup_block_eq add_trace_simps stop_trace_def)

lemma handler_is_stop: "AgentManager_init E sig = Some h \<Longrightarrow> h = stop E"
  by (cases sig) (simp_all add: AgentManager_init_def)

lemma effects_append: "effects (xs @ ys) = effects xs @ effects ys"
  by (simp add: effects_def)

lemma effects_Cons_info: "effects (Log_info m # xs) = effects xs"
  by (simp add: effects_def)

lemma effects_kill_block: "effects (kill_block E msg attr h) = kill_of h"
  by (simp add: effects_def kill_block_def kill_of_def split: option.splits)

lemma effects_cleanup:
  "effects (cleanup_block E) =
     Run rm_lock None #
     (case run_result E rm_lock None of Inl e \<Rightarrow> [] | Inr c \<Rightarrow> [Run rm_socket None])"
  by (simp add: effects_def cleanup_block_def split: sum.splits)

lemma effects_stop_trace:
  "effects (stop_trace E w) =
     kill_of (agent w) @ kill_of (vnc w) @ Run rm_lock None #
     (case run_result E rm_lock None of Inl e \<Rightarrow> [] | Inr c \<Rightarrow> [Run rm_socket None])"
  by (simp add: stop_trace_def effects_append effects_Cons_info effects_kill_block effects_cleanup)

lemma kills_kill_block: "filter is_kill (kill_block E msg attr h) = kill_of h"
  by (simp add: kill_block_def kill_of_def split: option.splits)

lemma kills_cleanup: "filter is_kill (cleanup_block E) = []"
  by (simp add: cleanup_block_def split: sum.splits)

lemma runs_kill_block: "filter is_run (kill_block E msg attr h) = []"
  by (simp add: kill_block_def split: option.splits)

lemma runs_cleanup:
  "filter is_run (cleanup_block E) =
     (case run_result E rm_lock None of
        Inl e \<Rightarrow> [Run rm_lock None]
      | Inr c \<Rightarrow> [Run rm_lock None, Run rm_socket None])"
  by (simp add: cleanup_block_def split: sum.splits)

text \<open>
  Claim C1, as the code has it. Whichever registered signal runs the handler, the
  attempted effects are, in this order: the termination signal to the application (if its
  handle is set), the termination signal to the display server (if its handle is set), the
  removal of the lock file, and the removal of the socket. The last one is attempted only
  when the lock-file removal command could be launched: both removals share one \<open>try\<close>
  block, so an exception of the first skips the second.
\<close>

theorem stop_effects_in_order:
  assumes "AgentManager_init E sig = Some handler"
  shows "effects (new_events w (snd (handler sig fr w))) =
           kill_of (agent w) @ kill_of (vnc w) @ [Run rm_lock None] @
           (case run_result E rm_lock None of Inl e \<Rightarrow> [] | Inr c \<Rightarrow> [Run rm_socket None])"
proof -
  have "handler = stop E"
    using assms by (rule handler_is_stop)
  then show ?thesis
    by (simp add: stop_eq new_events_add_trace effects_stop_trace)
qed

theorem stop_effects_in_order_witness:
  "AgentManager_init env_ok SIGHUP = Some (stop env_ok) \<and>
   effects (new_events world_running (snd (stop env_ok SIGHUP () world_running))) =
     [Kill 101 SIGTERM, Kill 100 SIGTERM, Run rm_lock None, Run rm_socket None]"
proof -
  have h: "AgentManager_init env_ok SIGHUP = Some (stop env_ok)"
    by (simp add: AgentManager_init_def)
  show ?thesis
    using h stop_effects_in_order [OF h, of world_running "()"]
    by (simp add: kill_of_def world_running_def world0_def env_ok_def)
qed

text \<open>
  Claim C1 as stated fails: without \<open>sudo\<close> the first removal raises
  \<open>FileNotFoundError\<close>, and the removal of the socket is never attempted.
\<close>

theorem stop_effects_counterexample:
  "effects (new_events world_running (snd (stop env_no_sudo SIGHUP () world_running))) \<noteq>
     kill_of (agent world_running) @ kill_of (vnc world_running) @
     [Run rm_lock None, Run rm_socket None]"
  by (simp add: stop_eq new_events_add_trace effects_stop_trace kill_of_def
      world_running_def world0_def env_no_sudo_def env_ok_def)

text \<open>
  Claim C2. \<open>stop\<close> returns, and raises nothing, in every world and every environment:
  with either handle unset, with \<open>os.kill\<close> failing for a process that is gone, and with
  the removal commands failing to launch or exiting with any status, in any combination.
\<close>

theorem stop_never_raises: "fst (stop E sig fr w) = Return ()"
  by (simp add: stop_eq)

theorem stop_never_raises_witness:
  "fst (stop env_no_fork SIGINT () world0) = Return ()"
  using stop_never_raises [of env_no_fork SIGINT "()" world0] by simp

text \<open>
  Claim C4, as the code has it. Once the display server is spawned, a shutdown returns
  without raising and sends exactly one termination signal per handle that is set. It
  attempts the lock-file removal, and then the socket removal whenever the lock-file
  removal command could be launched, whatever the exit status of either; when launching
  the first raises, the second is not attempted.
\<close>

theorem stop_attempts_after_vnc_spawn:
  assumes "vnc w = Some v"
  shows "fst (stop E sig fr w) = Return () \<and>
         filter is_kill (new_events w (snd (stop E sig fr w))) =
           kill_of (agent w) @ [Kill (pid v) SIGTERM] \<and>
         filter is_run (new_events w (snd (stop E sig fr w))) =
           (case run_result E rm_lock None of
              Inl e \<Rightarrow> [Run rm_lock None]
            | Inr c \<Rightarrow> [Run rm_lock None, Run rm_socket None])"
  using assms
  by (simp add: stop_eq new_events_add_trace stop_trace_def kills_kill_block kills_cleanup
      runs_kill_block runs_cleanup kill_of_def)

theorem stop_attempts_after_vnc_spawn_witness:
  "vnc world_vnc_only = Some \<lparr>pid = 100\<rparr> \<and>
   fst (stop env_ok SIGTERM () world_vnc_only) = Return () \<and>
   filter is_kill (new_events world_vnc_only (snd (stop env_ok SIGTERM () world_vnc_only))) =
     [Kill 100 SIGTERM] \<and>
   filter is_run (new_events world_vnc_only (snd (stop env_ok SIGTERM () world_vnc_only))) =
     [Run rm_lock None, Run rm_socket None]"
proof -
  have h: "vnc world_vnc_only = Some \<lparr>pid = 100\<rparr>"
    by (simp add: world_vnc_only_def)
  show ?thesis
    using h stop_attempts_after_vnc_spawn [OF h, of env_ok SIGTERM "()"]
    by (simp add: kill_of_def world_vnc_only_def world0_def env_ok_def)
qed

text \<open>
  Claim C4 as stated fails: when the lock-file removal cannot be launched, one removal is
  attempted, not two.
\<close>

theorem stop_two_removals_counterexample:
  "vnc world_vnc_only = Some \<lparr>pid = 100\<rparr> \<and>
   length (filter is_run
     (new_events world_vnc_only (snd (stop env_no_fork SIGTERM () world_vnc_only)))) \<noteq> 2"
  by (simp add: stop_eq new_events_add_trace stop_trace_def runs_kill_block runs_cleanup
      world_vnc_only_def world0_def env_no_fork_def env_ok_def)

text \<open>
  Claim C10. \<open>stop\<close> leaves both handles as they were: it reads \<open>self.agent\<close> and
  \<open>self.vnc\<close> and assigns neither. (It leaves the file-system model alone too: the
  removals are external commands.)
\<close>

theorem stop_keeps_handles:
  "agent (snd (stop E sig fr w)) = agent w \<and> vnc (snd (stop E sig fr w)) = vnc w"
  by (simp add: stop_eq add_trace_simps)

theorem stop_keeps_handles_witness:
  "agent (snd (stop env_ok SIGTERM () world_running)) = Some \<lparr>pid = 101\<rparr> \<and>
   vnc (snd (stop env_ok SIGTERM () world_running)) = Some \<lparr>pid = 100\<rparr>"
  using stop_keeps_handles [of env_ok SIGTERM "()" world_running]
  by (simp add: world_running_def world0_def)

section \<open>Start-up\<close>

subsection \<open>The calls of \<open>start_vnc\<close>, when they succeed\<close>

lemma bnd_get_node: "bnd (get_node p) f w = f (fs w p) w"
  by (simp add: bnd_def get_node_def)

lemma os_makedirs_ok:
  assumes "dir_ensurable E w"
  shows "os_makedirs E vnc_dir 755 True w =
           (Return (), (after_makedirs E w)\<lparr>trace := trace w @ [Makedirs vnc_dir 755 True]\<rparr>)"
proof (cases "fs w vnc_dir")
  case None
  with assms show ?thesis
    by (simp add: os_makedirs_def bnd_emit bnd_get_node set_node_def add_trace_def
        dir_ensurable_def after_makedirs_def created_dir_mode_def)
next
  case (Some n)
  with assms show ?thesis
    by (cases n)
      (simp_all add: os_makedirs_def bnd_emit bnd_get_node ret_def add_trace_def
        dir_ensurable_def after_makedirs_def)
qed

lemma open_wb_ok:
  assumes "passwd_writable E w"
  shows "open_wb E vnc_passwd_file w =
           (Return (), w\<lparr>fs := (fs w)(vnc_passwd_file \<mapsto>
                             File (case fs w vnc_passwd_file of
                                     Some (File m c) \<Rightarrow> m
                                   | _ \<Rightarrow> word_of_nat (octal [6, 6, 6]) AND NOT (umask E)) []),
                         trace := trace w @ [Open_wb vnc_passwd_file]\<rparr>)"
proof (cases "fs w vnc_passwd_file")
  case None
  with assms show ?thesis
    by (simp add: open_wb_def bnd_emit bnd_get_node set_node_def add_trace_def passwd_writable_def)
next
  case (Some n)
  with assms show ?thesis
    by (cases n)
      (simp_all add: open_wb_def bnd_emit bnd_get_node set_node_def add_trace_def
        passwd_writable_def)
qed

lemma file_write_ok:
  assumes "write_error E p = None" and "fs w p = Some (File m c)"
  shows "file_write E p d w =
           (Return (), w\<lparr>fs := (fs w)(p \<mapsto> File m (c @ d)), trace := trace w @ [Write p d]\<rparr>)"
  using assms
  by (simp add: file_write_def bnd_emit bnd_get_node set_node_def add_trace_def)

lemma os_chmod_ok:
  assumes "chmod_error E p = None" and "fs w p = Some (File m c)"
  shows "os_chmod E p m' w =
           (Return (), w\<lparr>fs := (fs w)(p \<mapsto> File m' c), trace := trace w @ [Chmod p m']\<rparr>)"
  using assms
  by (simp add: os_chmod_def bnd_emit bnd_get_node set_node_def add_trace_def)

lemma write_passwd_ok:
  assumes "passwd_writable E w"
  shows "bnd (open_wb E vnc_passwd_file) (\<lambda>_.
         bnd (file_write E vnc_passwd_file d) (\<lambda>_.
         bnd (os_chmod E vnc_passwd_file m) k)) w =
         k () (w\<lparr>fs := (fs w)(vnc_passwd_file \<mapsto> File m d),
                trace := trace w @ [Open_wb vnc_passwd_file, Write vnc_passwd_file d, Chmod vnc_passwd_file m]\<rparr>)"
proof -
  have we: "write_error E vnc_passwd_file = None" and ce: "chmod_error E vnc_passwd_file = None"
    using assms by (simp_all add: passwd_writable_def)
  show ?thesis
    by (simp add: bnd_Return [where m = "open_wb E vnc_passwd_file", OF open_wb_ok [OF assms]]
        bnd_Return [where m = "file_write E vnc_passwd_file d", OF file_write_ok [OF we]]
        bnd_Return [where m = "os_chmod E vnc_passwd_file m", OF os_chmod_ok [OF ce]])
qed

lemma passwd_writable_after_makedirs:
  "passwd_writable E ((after_makedirs E w)\<lparr>trace := t\<rparr>) = passwd_writable E w"
  by (simp add: passwd_writable_def after_makedirs_def vnc_dir_def vnc_passwd_file_def
      split: option.splits)

lemma subprocess_Popen_eq:
  "subprocess_Popen E a w =
     ((case popen_result E a of Inl e \<Rightarrow> Raise e | Inr p \<Rightarrow> Return \<lparr>pid = p\<rparr>),
      add_trace [Popen a] w)"
  by (simp add: subprocess_Popen_def bnd_emit ret_def raise_def split: sum.splits)

lemma start_vnc_success:
  assumes "environ E ''VNCPASS'' = Some p"
    and "utf8 p = Some inp"
    and "run_result E vncpasswd_cmd (Some inp) = Inr c"
    and "dir_ensurable E w"
    and "passwd_writable E w"
    and "popen_result E vncserver_cmd = Inr n"
  shows "start_vnc E w = (Return (), after_start_vnc E inp c n w)"
proof -
  have d: "dir_ensurable E (add_trace [Log_info ''Start vnc...''] w)"
    using assms(4) by (simp add: dir_ensurable_def add_trace_def)
  have env: "bnd (environ_get E ''VNCPASS'') f w' = f p w'" for f :: "str \<Rightarrow> unit py" and w'
    using assms(1) by (simp add: environ_get_def bnd_def ret_def)
  have enc: "bnd (str_encode p) f w' = f inp w'" for f :: "bytes \<Rightarrow> unit py" and w'
    using assms(2) by (simp add: str_encode_def bnd_def ret_def)
  have run: "bnd (subprocess_run E vncpasswd_cmd (Some inp)) f w' =
               f c (add_trace [Run vncpasswd_cmd (Some inp)] w')"
    for f :: "completed \<Rightarrow> unit py" and w'
    using assms(3) by (simp add: bnd_def subprocess_run_eq)
  have pop: "bnd (subprocess_Popen E vncserver_cmd) f w' =
               f \<lparr>pid = n\<rparr> (add_trace [Popen vncserver_cmd] w')"
    for f :: "popen \<Rightarrow> unit py" and w'
    using assms(6) by (simp add: bnd_def subprocess_Popen_eq)
  have pw: "passwd_writable E
              (add_trace [Run vncpasswd_cmd (Some inp)]
                 ((after_makedirs E (add_trace [Log_info ''Start vnc...''] w))
                    \<lparr>trace := trace (add_trace [Log_info ''Start vnc...''] w) @
                                [Makedirs vnc_dir 755 True]\<rparr>))"
    using assms(5)
    by (simp add: add_trace_def passwd_writable_def after_makedirs_def vnc_dir_def
        vnc_passwd_file_def split: option.splits)
  show ?thesis
    unfolding start_vnc_def bnd_info
    apply (simp only: bnd_Return [where m = "os_makedirs E vnc_dir 755 True", OF os_makedirs_ok [OF d]]
        env enc run write_passwd_ok [OF pw] pop)
    apply (simp add: set_vnc_def add_trace_def after_start_vnc_def after_makedirs_def
        start_vnc_trace_def split: option.splits)
    done
qed

text \<open>A password that has no encoding: \<open>start_vnc\<close> raises before the hashing utility
  is run.\<close>

lemma start_vnc_unencodable:
  assumes "environ E ''VNCPASS'' = Some p"
    and "utf8 p = None"
    and "dir_ensurable E w"
  shows "start_vnc E w =
           (Raise UnicodeEncodeError,
            (after_makedirs E w)
              \<lparr>trace := trace w @ [Log_info ''Start vnc...'', Makedirs vnc_dir 755 True]\<rparr>)"
proof -
  have d: "dir_ensurable E (add_trace [Log_info ''Start vnc...''] w)"
    using assms(3) by (simp add: dir_ensurable_def add_trace_def)
  have env: "bnd (environ_get E ''VNCPASS'') f w' = f p w'" for f :: "str \<Rightarrow> unit py" and w'
    using assms(1) by (simp add: environ_get_def bnd_def ret_def)
  have enc: "bnd (str_encode p) f w' = (Raise UnicodeEncodeError, w')"
    for f :: "bytes \<Rightarrow> unit py" and w'
    using assms(2) by (simp add: str_encode_def bnd_def raise_def)
  show ?thesis
    unfolding start_vnc_def bnd_info
    apply (simp only: bnd_Return [where m = "os_makedirs E vnc_dir 755 True", OF os_makedirs_ok [OF d]]
        env enc)
    apply (simp add: add_trace_def after_makedirs_def split: option.splits)
    done
qed

lemma start_vnc_bad_password:
  "fst (start_vnc env_bad_password world0) = Raise UnicodeEncodeError \<and>
   filter is_spawn (trace (snd (start_vnc env_bad_password world0))) = []"
proof -
  have "environ env_bad_password ''VNCPASS'' = Some [56575]" "utf8 [56575] = None"
    "dir_ensurable env_bad_password world0"
    by (simp_all add: env_bad_password_def env_ok_def utf8_char_def dir_ensurable_def world0_def)
  from start_vnc_unencodable [OF this] show ?thesis
    by (simp add: world0_def)
qed

subsection \<open>Frames: what the later steps leave alone\<close>

lemma keeps_bnd:
  assumes "keeps g m" and "\<And>x. keeps g (f x)"
  shows "keeps g (bnd m f)"
proof (unfold keeps_def, intro allI)
  fix w
  obtain r w1 where mw: "m w = (r, w1)"
    by (cases "m w")
  have g1: "g w1 = g w"
    using assms(1) mw by (auto simp: keeps_def dest: spec [where x = w])
  show "g (snd (bnd m f w)) = g w"
  proof (cases r)
    case (Return x)
    have "g (snd (f x w1)) = g w1"
      using assms(2) [of x] by (simp add: keeps_def)
    with Return mw g1 show ?thesis
      by (simp add: bnd_def)
  qed (simp_all add: bnd_def mw g1)
qed

lemma grows_bnd:
  assumes "grows m" and "\<And>x. grows (f x)"
  shows "grows (bnd m f)"
proof (unfold grows_def, intro allI)
  fix w
  obtain r w1 where mw: "m w = (r, w1)"
    by (cases "m w")
  obtain evs where g1: "trace w1 = trace w @ evs"
    using assms(1) mw by (auto simp: grows_def dest: spec [where x = w])
  show "\<exists>evs. trace (snd (bnd m f w)) = trace w @ evs"
  proof (cases r)
    case (Return x)
    obtain evs' where "trace (snd (f x w1)) = trace w1 @ evs'"
      using assms(2) [of x] by (auto simp: grows_def)
    with Return mw g1 show ?thesis
      by (simp add: bnd_def)
  qed (simp_all add: bnd_def mw g1)
qed

lemma grows_prims:
  "grows (emit ev)"
  "grows (ret x)"
  "grows (raise e)"
  "grows block"
  "grows (get_node p)"
  "grows (set_node p n)"
  "grows (set_vnc h)"
  "grows (set_agent h)"
  "grows get_agent"
  "grows (environ_get E k)"
  "grows (str_encode s)"
  by (simp_all add: grows_def emit_def ret_def raise_def block_def get_node_def set_node_def
      set_vnc_def set_agent_def get_agent_def environ_get_def str_encode_def
      split: option.splits)

lemma grows_calls:
  "grows (subprocess_run E a i)"
  "grows (subprocess_Popen E a)"
  "grows (open_wb E p)"
  "grows (file_write E p d)"
  "grows (os_chmod E p m)"
  by (simp_all add: grows_def subprocess_run_def subprocess_Popen_def open_wb_def file_write_def
      os_chmod_def bnd_def emit_def ret_def raise_def get_node_def set_node_def
      split: option.splits sum.splits node.splits)

lemma keeps_dir_prims:
  "keeps (\<lambda>w. fs w vnc_dir) (emit ev)"
  "keeps (\<lambda>w. fs w vnc_dir) (ret x)"
  "keeps (\<lambda>w. fs w vnc_dir) (raise e)"
  "keeps (\<lambda>w. fs w vnc_dir) (get_node p)"
  "keeps (\<lambda>w. fs w vnc_dir) (set_node vnc_passwd_file n)"
  "keeps (\<lambda>w. fs w vnc_dir) (set_vnc h)"
  "keeps (\<lambda>w. fs w vnc_dir) (environ_get E k)"
  "keeps (\<lambda>w. fs w vnc_dir) (str_encode s)"
  by (simp_all add: keeps_def emit_def ret_def raise_def get_node_def set_node_def
      set_vnc_def environ_get_def str_encode_def vnc_dir_def vnc_passwd_file_def
      split: option.splits)

lemma keeps_dir_calls:
  "keeps (\<lambda>w. fs w vnc_dir) (subprocess_run E a i)"
  "keeps (\<lambda>w. fs w vnc_dir) (subprocess_Popen E a)"
  "keeps (\<lambda>w. fs w vnc_dir) (open_wb E vnc_passwd_file)"
  "keeps (\<lambda>w. fs w vnc_dir) (file_write E vnc_passwd_file d)"
  "keeps (\<lambda>w. fs w vnc_dir) (os_chmod E vnc_passwd_file m)"
  by (simp_all add: keeps_def subprocess_run_def subprocess_Popen_def open_wb_def file_write_def
      os_chmod_def bnd_def emit_def ret_def raise_def get_node_def set_node_def
      vnc_dir_def vnc_passwd_file_def split: option.splits sum.splits node.splits)

lemma bnd_obs:
  assumes "\<And>x. keeps g (f x)"
  shows "g (snd (bnd m f w)) = g (snd (m w))"
proof -
  obtain r w1 where mw: "m w = (r, w1)"
    by (cases "m w")
  show ?thesis
  proof (cases r)
    case (Return x)
    have "g (snd (f x w1)) = g w1"
      using assms [of x] by (simp add: keeps_def)
    with Return mw show ?thesis
      by (simp add: bnd_def)
  qed (simp_all add: bnd_def mw)
qed

lemma bnd_trace_ext:
  assumes "\<And>x. grows (f x)"
  shows "\<exists>evs. trace (snd (bnd m f w)) = trace (snd (m w)) @ evs"
proof -
  obtain r w1 where mw: "m w = (r, w1)"
    by (cases "m w")
  show ?thesis
  proof (cases r)
    case (Return x)
    obtain evs where "trace (snd (f x w1)) = trace w1 @ evs"
      using assms [of x] by (auto simp: grows_def)
    with Return mw show ?thesis
      by (simp add: bnd_def)
  qed (simp_all add: bnd_def mw)
qed

subsection \<open>\<open>os.makedirs\<close>, in full\<close>

lemma os_makedirs_eq:
  "os_makedirs E name mode ok w =
     (case fs w name of
        None \<Rightarrow>
          (case mkdir_error E name of
             Some e \<Rightarrow> (Raise e, add_trace [Makedirs name mode ok] w)
           | None \<Rightarrow>
               (Return (),
                (add_trace [Makedirs name mode ok] w)
                  \<lparr>fs := (fs w)(name \<mapsto>
                     Dir (word_of_int mode AND NOT (umask E) AND word_of_nat (octal [1, 7, 7, 7])))\<rparr>))
      | Some (Dir m) \<Rightarrow>
          ((if ok then Return () else Raise FileExistsError), add_trace [Makedirs name mode ok] w)
      | Some (File m c) \<Rightarrow> (Raise FileExistsError, add_trace [Makedirs name mode ok] w))"
  by (simp add: os_makedirs_def bnd_emit bnd_get_node ret_def raise_def set_node_def add_trace_def
      split: option.splits node.splits)

lemma os_makedirs_trace:
  "trace (snd (os_makedirs E name mode ok w)) = trace w @ [Makedirs name mode ok]"
  by (simp add: os_makedirs_eq add_trace_def split: option.splits node.splits)

lemma os_makedirs_handles:
  "agent (snd (os_makedirs E name mode ok w)) = agent w"
  "vnc (snd (os_makedirs E name mode ok w)) = vnc w"
  by (simp_all add: os_makedirs_eq add_trace_def split: option.splits node.splits)

lemma os_makedirs_not_Blocked: "fst (os_makedirs E name mode ok w) \<noteq> Blocked"
  by (simp add: os_makedirs_eq split: option.splits node.splits)

lemma os_makedirs_dir:
  "fs (snd (os_makedirs E vnc_dir 755 True w)) vnc_dir =
     (case fs w vnc_dir of
        None \<Rightarrow>
          (case mkdir_error E vnc_dir of
             None \<Rightarrow> Some (Dir (created_dir_mode E))
           | Some e \<Rightarrow> None)
      | Some nd \<Rightarrow> Some nd)"
  by (simp add: os_makedirs_eq add_trace_def created_dir_mode_def split: option.splits node.splits)

lemma start_vnc_unfold:
  "start_vnc E w =
     bnd (os_makedirs E vnc_dir 755 True) (\<lambda>_.
     bnd (environ_get E ''VNCPASS'') (\<lambda>p.
     bnd (str_encode p) (\<lambda>inp.
     bnd (subprocess_run E vncpasswd_cmd (Some inp)) (\<lambda>passwd_output.
     bnd (open_wb E vnc_passwd_file) (\<lambda>_.
     bnd (file_write E vnc_passwd_file (stdout passwd_output)) (\<lambda>_.
     bnd (os_chmod E vnc_passwd_file (word_of_nat (octal [7, 0, 0]))) (\<lambda>_.
     bnd (subprocess_Popen E vncserver_cmd) (\<lambda>h.
     set_vnc h)))))))) (add_trace [Log_info ''Start vnc...''] w)"
  by (simp add: start_vnc_def bnd_info)

lemma start_vnc_prefix:
  "\<exists>evs. new_events w (snd (start_vnc E w)) =
           Log_info ''Start vnc...'' # Makedirs vnc_dir 755 True # evs"
proof -
  have "\<exists>evs. trace (snd (start_vnc E w)) =
          trace (snd (os_makedirs E vnc_dir 755 True (add_trace [Log_info ''Start vnc...''] w))) @ evs"
    unfolding start_vnc_unfold
    by (rule bnd_trace_ext) (intro grows_bnd grows_prims grows_calls)
  then show ?thesis
    by (auto simp: os_makedirs_trace add_trace_def new_events_def)
qed

lemma start_vnc_dir:
  "fs (snd (start_vnc E w)) vnc_dir =
     (case fs w vnc_dir of
        None \<Rightarrow>
          (case mkdir_error E vnc_dir of
             None \<Rightarrow> Some (Dir (created_dir_mode E))
           | Some e \<Rightarrow> None)
      | Some nd \<Rightarrow> Some nd)"
proof -
  have "fs (snd (start_vnc E w)) vnc_dir =
          fs (snd (os_makedirs E vnc_dir 755 True (add_trace [Log_info ''Start vnc...''] w))) vnc_dir"
    unfolding start_vnc_unfold
    by (rule bnd_obs [where g = "\<lambda>w. fs w vnc_dir"])
      (intro keeps_bnd keeps_dir_prims keeps_dir_calls)
  then show ?thesis
    by (simp add: os_makedirs_dir add_trace_def)
qed

lemma created_dir_mode_not_755: "created_dir_mode E \<noteq> word_of_nat (octal [7, 5, 5])"
proof
  assume "created_dir_mode E = word_of_nat (octal [7, 5, 5])"
  then have "bit (created_dir_mode E) 8 = bit (493 :: mode_t) 8"
    by (simp add: octal_def)
  then show False
    by (simp add: created_dir_mode_def bit_simps)
qed

subsection \<open>\<open>start_agent\<close>, in full\<close>

lemma bnd_Popen:
  "bnd (subprocess_Popen E a) f w =
     (case popen_result E a of
        Inl e \<Rightarrow> (Raise e, add_trace [Popen a] w)
      | Inr k \<Rightarrow> f \<lparr>pid = k\<rparr> (add_trace [Popen a] w))"
  by (simp add: bnd_def subprocess_Popen_eq split: sum.splits)

lemma bnd_set_agent: "bnd (set_agent h) f w = f () (w\<lparr>agent := Some h\<rparr>)"
  by (simp add: bnd_def set_agent_def)

lemma bnd_get_agent:
  "bnd get_agent f w =
     (case agent w of None \<Rightarrow> (Raise (AttributeError ''agent''), w) | Some h \<Rightarrow> f h w)"
  by (simp add: bnd_def get_agent_def split: option.splits)

lemma wait_discard:
  "bnd (popen_wait E h) (\<lambda>_. ret ()) w =
     ((case exit_status E (pid h) of None \<Rightarrow> Blocked | Some c \<Rightarrow> Return ()),
      add_trace [Wait (pid h)] w)"
  by (simp add: popen_wait_def bnd_def emit_def ret_def block_def add_trace_def
      split: option.splits)

lemma start_agent_eq:
  "start_agent E w =
     (case popen_result E agent_cmd of
        Inl e \<Rightarrow> (Raise e, add_trace [Log_info ''Start agent...'', Popen agent_cmd] w)
      | Inr k \<Rightarrow>
          ((case exit_status E k of None \<Rightarrow> Blocked | Some c \<Rightarrow> Return ()),
           w\<lparr>agent := Some \<lparr>pid = k\<rparr>,
             trace := trace w @ [Log_info ''Start agent...'', Popen agent_cmd, Wait k]\<rparr>))"
  by (simp add: start_agent_def bnd_info bnd_Popen bnd_set_agent bnd_get_agent wait_discard
      add_trace_def split: sum.splits)

subsection \<open>A second run of \<open>start_vnc\<close>\<close>

lemma after_start_vnc_dir_ensurable: "dir_ensurable E w \<Longrightarrow> dir_ensurable E (after_start_vnc E p c n w)"
  by (simp add: dir_ensurable_def after_start_vnc_def after_makedirs_def vnc_dir_def
      vnc_passwd_file_def split: option.splits node.splits)

lemma after_start_vnc_passwd_writable:
  "passwd_writable E w \<Longrightarrow> passwd_writable E (after_start_vnc E p c n w)"
  by (simp add: passwd_writable_def after_start_vnc_def)

lemma after_start_vnc_dir:
  "fs (after_start_vnc E p c n w) vnc_dir =
     (case fs w vnc_dir of None \<Rightarrow> Some (Dir (created_dir_mode E)) | Some nd \<Rightarrow> Some nd)"
  by (simp add: after_start_vnc_def after_makedirs_def vnc_dir_def vnc_passwd_file_def
      split: option.splits)

subsection \<open>Changing the exit status of the commands that run\<close>

lemma with_returncode_calls:
  "os_makedirs (with_returncode rc E) nm md ok = os_makedirs E nm md ok"
  "environ_get (with_returncode rc E) key = environ_get E key"
  "open_wb (with_returncode rc E) path = open_wb E path"
  "file_write (with_returncode rc E) path d = file_write E path d"
  "os_chmod (with_returncode rc E) path m = os_chmod E path m"
  "subprocess_Popen (with_returncode rc E) a = subprocess_Popen E a"
  by (simp_all add: with_returncode_def os_makedirs_def environ_get_def open_wb_def
      file_write_def os_chmod_def subprocess_Popen_def
      cong: option.case_cong node.case_cong sum.case_cong)

lemma with_returncode_run:
  "bnd (subprocess_run (with_returncode rc E) a i) f =
     bnd (subprocess_run E a i) (\<lambda>c. f (c\<lparr>returncode := rc\<rparr>))"
  by (rule ext)
    (simp add: bnd_def subprocess_run_eq with_returncode_def split: sum.splits)

lemma start_vnc_with_returncode: "start_vnc (with_returncode rc E) w = start_vnc E w"
  by (simp add: start_vnc_def with_returncode_calls with_returncode_run)

subsection \<open>The concrete environment\<close>

lemma utf8_ascii: "list_all (\<lambda>c. of_char c < (128 :: nat)) s \<Longrightarrow> utf8 (str_of s) = Some s"
  by (induction s) (simp_all add: str_of_def utf8_char_def)

lemma utf8_secret: "utf8 (str_of ''secret'') = Some ''secret''"
  by (rule utf8_ascii) simp

lemma env_ok_facts:
  "environ env_ok ''VNCPASS'' = Some (str_of ''secret'')"
  "run_result env_ok vncpasswd_cmd (Some ''secret'') =
     Inr \<lparr>returncode = 0, stdout = ''hash''\<rparr>"
  "popen_result env_ok vncserver_cmd = Inr 100"
  "popen_result env_ok agent_cmd = Inr 101"
  "dir_ensurable env_ok world0"
  "passwd_writable env_ok world0"
  "dir_ensurable env_ok world_with_dir"
  "passwd_writable env_ok world_with_dir"
  by (simp_all add: env_ok_def vncserver_cmd_def agent_cmd_def dir_ensurable_def
      passwd_writable_def world0_def world_with_dir_def vnc_dir_def vnc_passwd_file_def)

subsection \<open>The claims about start-up\<close>

text \<open>
  Claim C3. When \<open>VNCPASS\<close> is not in the environment, \<open>start\<close> raises. By then it has
  logged one line and called \<open>os.makedirs\<close>, and nothing else: no command was run and no
  process spawned (neither the hashing utility, nor the display server, nor the
  application), and both handles are as they were.
\<close>

theorem start_without_password:
  assumes "environ E ''VNCPASS'' = None"
  shows "(\<exists>e. fst (start E w) = Raise e) \<and>
         agent (snd (start E w)) = agent w \<and>
         vnc (snd (start E w)) = vnc w \<and>
         new_events w (snd (start E w)) = [Log_info ''Start vnc...'', Makedirs vnc_dir 755 True] \<and>
         filter is_spawn (new_events w (snd (start E w))) = []"
proof -
  define w1 where "w1 = add_trace [Log_info ''Start vnc...''] w"
  obtain r w2 where mk: "os_makedirs E vnc_dir 755 True w1 = (r, w2)"
    by (cases "os_makedirs E vnc_dir 755 True w1")
  have w1: "agent w1 = agent w" "vnc w1 = vnc w" "trace w1 = trace w @ [Log_info ''Start vnc...'']"
    by (simp_all add: w1_def add_trace_def)
  have w2: "agent w2 = agent w" "vnc w2 = vnc w"
    "trace w2 = trace w @ [Log_info ''Start vnc...'', Makedirs vnc_dir 755 True]"
    using os_makedirs_handles [of E vnc_dir 755 True w1] os_makedirs_trace [of E vnc_dir 755 True w1]
    by (simp_all add: mk w1)
  have nb: "r \<noteq> Blocked"
    using os_makedirs_not_Blocked [of E vnc_dir 755 True w1] by (simp add: mk)
  have "\<exists>e. start_vnc E w = (Raise e, w2)"
  proof (cases r)
    case (Return x)
    then show ?thesis
      using assms mk
      by (simp add: start_vnc_unfold bnd_def environ_get_def raise_def flip: w1_def)
  next
    case (Raise e)
    then show ?thesis
      using mk by (simp add: start_vnc_unfold bnd_def flip: w1_def)
  next
    case Blocked
    with nb show ?thesis by simp
  qed
  then obtain e where "start_vnc E w = (Raise e, w2)"
    by blast
  then show ?thesis
    by (simp add: start_def bnd_def new_events_def w2)
qed

theorem start_without_password_witness:
  "environ env_no_password ''VNCPASS'' = None \<and>
   fst (start env_no_password world0) = Raise (KeyError ''VNCPASS'') \<and>
   agent (snd (start env_no_password world0)) = None \<and>
   vnc (snd (start env_no_password world0)) = None \<and>
   new_events world0 (snd (start env_no_password world0)) =
     [Log_info ''Start vnc...'', Makedirs vnc_dir 755 True]"
proof -
  have h: "environ env_no_password ''VNCPASS'' = None"
    by (simp add: env_no_password_def)
  have k: "fst (start env_no_password world0) = Raise (KeyError ''VNCPASS'')"
    by (simp add: start_def start_vnc_unfold bnd_def os_makedirs_eq environ_get_def raise_def
        add_trace_def env_no_password_def env_ok_def world0_def)
  show ?thesis
    using h k start_without_password [OF h, of world0]
    by (simp add: world0_def)
qed

text \<open>
  Claim C5. When the password can be encoded and its calls succeed, \<open>start_vnc\<close>
  returns whether the state directory was absent (it is created) or there already (it is
  left as it is), and a second call, which finds the directory, returns too. The
  credential file then holds the captured output and has mode \<open>0o700\<close>, which has no
  group or other bit. Exactly one process is spawned, with the argument list written out
  below, and its handle is stored.
\<close>

theorem start_vnc_effects:
  assumes "environ E ''VNCPASS'' = Some p"
    and "utf8 p = Some inp"
    and "run_result E vncpasswd_cmd (Some inp) = Inr c"
    and "dir_ensurable E w"
    and "passwd_writable E w"
    and "popen_result E vncserver_cmd = Inr n"
  shows "fst (start_vnc E w) = Return () \<and>
         fs (snd (start_vnc E w)) vnc_dir =
           (case fs w vnc_dir of None \<Rightarrow> Some (Dir (created_dir_mode E)) | Some nd \<Rightarrow> Some nd) \<and>
         fst (start_vnc E (snd (start_vnc E w))) = Return () \<and>
         fs (snd (start_vnc E w)) vnc_passwd_file =
           Some (File (word_of_nat (octal [7, 0, 0])) (stdout c)) \<and>
         (word_of_nat (octal [7, 0, 0]) :: mode_t) AND word_of_nat (octal [0, 7, 7]) = 0 \<and>
         filter is_popen (new_events w (snd (start_vnc E w))) =
           [Popen [''/usr/bin/vncserver'', ''-localhost'', ''no'', ''-xstartup'',
                   ''/usr/bin/openbox'', '':5'']] \<and>
         vnc (snd (start_vnc E w)) = Some \<lparr>pid = n\<rparr>"
proof -
  have 1: "start_vnc E w = (Return (), after_start_vnc E inp c n w)"
    by (rule start_vnc_success [OF assms])
  have 2: "start_vnc E (after_start_vnc E inp c n w) =
             (Return (), after_start_vnc E inp c n (after_start_vnc E inp c n w))"
    by (rule start_vnc_success [OF assms(1,2,3) after_start_vnc_dir_ensurable [OF assms(4)]
          after_start_vnc_passwd_writable [OF assms(5)] assms(6)])
  have 3: "(word_of_nat (octal [7, 0, 0]) :: mode_t) AND word_of_nat (octal [0, 7, 7]) = 0"
    by (simp add: octal_def)
  have 4: "filter is_popen (new_events w (after_start_vnc E inp c n w)) =
             [Popen [''/usr/bin/vncserver'', ''-localhost'', ''no'', ''-xstartup'',
                     ''/usr/bin/openbox'', '':5'']]"
    by (simp add: new_events_def after_start_vnc_def start_vnc_trace_def vncserver_cmd_def)
  have 5: "fs (after_start_vnc E inp c n w) vnc_passwd_file =
             Some (File (word_of_nat (octal [7, 0, 0])) (stdout c))"
    "vnc (after_start_vnc E inp c n w) = Some \<lparr>pid = n\<rparr>"
    by (simp_all add: after_start_vnc_def)
  show ?thesis
    unfolding 1 2 fst_conv snd_conv
    using 3 4 5 after_start_vnc_dir [of E inp c n w] by blast
qed

theorem start_vnc_effects_witness:
  "fst (start_vnc env_ok world_with_dir) = Return () \<and>
   fs (snd (start_vnc env_ok world_with_dir)) vnc_dir = Some (Dir 493) \<and>
   fs (snd (start_vnc env_ok world_with_dir)) vnc_passwd_file = Some (File 448 ''hash'') \<and>
   filter is_popen (new_events world_with_dir (snd (start_vnc env_ok world_with_dir))) =
     [Popen [''/usr/bin/vncserver'', ''-localhost'', ''no'', ''-xstartup'',
             ''/usr/bin/openbox'', '':5'']] \<and>
   vnc (snd (start_vnc env_ok world_with_dir)) = Some \<lparr>pid = 100\<rparr>"
  using start_vnc_effects [OF env_ok_facts(1) utf8_secret env_ok_facts(2,7,8,3)]
  by (simp add: world_with_dir_def world0_def octal_def)

text \<open>
  Claim C6. Once the application is spawned, \<open>start_agent\<close> waits for it: it returns
  exactly when the process has an exit status, it returns \<open>None\<close> whatever that status
  is, and the world it leaves does not depend on the status. When the process never
  exits, the call blocks.
\<close>

theorem start_agent_waits:
  assumes "popen_result E agent_cmd = Inr k"
  shows "start_agent E w =
           ((case exit_status E k of None \<Rightarrow> Blocked | Some status \<Rightarrow> Return ()),
            w\<lparr>agent := Some \<lparr>pid = k\<rparr>,
              trace := trace w @ [Log_info ''Start agent...'', Popen agent_cmd, Wait k]\<rparr>)"
  using assms by (simp add: start_agent_eq)

theorem start_agent_waits_witness:
  "popen_result env_agent_crash agent_cmd = Inr 101 \<and>
   start_agent env_agent_crash world_vnc_only =
     (Return (),
      world_vnc_only\<lparr>agent := Some \<lparr>pid = 101\<rparr>,
        trace := [Log_info ''Start agent...'', Popen agent_cmd, Wait 101]\<rparr>)"
proof -
  have h: "popen_result env_agent_crash agent_cmd = Inr 101"
    by (simp add: env_agent_crash_def env_ok_def vncserver_cmd_def agent_cmd_def)
  show ?thesis
    using h start_agent_waits [OF h, of world_vnc_only]
    by (simp add: env_agent_crash_def world_vnc_only_def world0_def)
qed

text \<open>
  Claim C7. With \<open>VNCPASS\<close> set to \<open>secret\<close> and every call succeeding, \<open>start\<close> makes
  its calls in this order: the directory, the hashing utility with \<open>secret\<close> on its
  standard input, the credential file (opened, written, mode changed), the display
  server, the application, and the wait for the application.
\<close>

theorem start_order:
  assumes "environ E ''VNCPASS'' = Some (str_of ''secret'')"
    and "run_result E vncpasswd_cmd (Some ''secret'') = Inr c"
    and "dir_ensurable E w"
    and "passwd_writable E w"
    and "popen_result E vncserver_cmd = Inr n"
    and "popen_result E agent_cmd = Inr k"
  shows "new_events w (snd (start E w)) =
           [Log_info ''Start vnc...'',
            Makedirs vnc_dir 755 True,
            Run vncpasswd_cmd (Some ''secret''),
            Open_wb vnc_passwd_file,
            Write vnc_passwd_file (stdout c),
            Chmod vnc_passwd_file (word_of_nat (octal [7, 0, 0])),
            Popen vncserver_cmd,
            Log_info ''Start agent...'',
            Popen agent_cmd,
            Wait k] \<and>
         fst (start E w) = (case exit_status E k of None \<Rightarrow> Blocked | Some status \<Rightarrow> Return ())"
  using assms(6)
  by (simp add: start_def bnd_def start_vnc_success [OF assms(1) utf8_secret assms(2-5)]
      start_agent_eq after_start_vnc_def start_vnc_trace_def new_events_def)

theorem start_order_witness:
  "new_events world0 (snd (start env_ok world0)) =
     [Log_info ''Start vnc...'',
      Makedirs vnc_dir 755 True,
      Run vncpasswd_cmd (Some ''secret''),
      Open_wb vnc_passwd_file,
      Write vnc_passwd_file ''hash'',
      Chmod vnc_passwd_file 448,
      Popen vncserver_cmd,
      Log_info ''Start agent...'',
      Popen agent_cmd,
      Wait 101] \<and>
   fst (start env_ok world0) = Return ()"
  using start_order [OF env_ok_facts(1,2,5,6,3,4)]
  by (simp add: octal_def env_ok_def)

text \<open>
  Claim C8. The first call of \<open>start_vnc\<close> after its log line is \<open>os.makedirs\<close> with the
  decimal mode 755, which is \<open>0o1363\<close> and not \<open>0o755\<close>. The directory keeps the node the
  call leaves until \<open>start_vnc\<close> ends; when the call creates it, its mode is
  \<open>755 & ~umask & 0o1777\<close>, which is not \<open>0o755\<close> under any umask (the owner's read bit
  is missing).
\<close>

theorem makedirs_mode_is_decimal_755:
  "(\<exists>evs. new_events w (snd (start_vnc E w)) =
            Log_info ''Start vnc...'' # Makedirs vnc_dir 755 True # evs) \<and>
   (755 :: int) = int (octal [1, 3, 6, 3]) \<and>
   (755 :: int) \<noteq> int (octal [7, 5, 5]) \<and>
   fs (snd (start_vnc E w)) vnc_dir =
     (case fs w vnc_dir of
        None \<Rightarrow>
          (case mkdir_error E vnc_dir of
             None \<Rightarrow> Some (Dir (created_dir_mode E))
           | Some e \<Rightarrow> None)
      | Some nd \<Rightarrow> Some nd) \<and>
   created_dir_mode E \<noteq> word_of_nat (octal [7, 5, 5])"
  using start_vnc_prefix [of w E] start_vnc_dir [of E w] created_dir_mode_not_755 [of E]
  by (simp add: octal_def)

theorem makedirs_mode_is_decimal_755_witness:
  "fs (snd (start_vnc env_ok world0)) vnc_dir = Some (Dir (created_dir_mode env_ok)) \<and>
   created_dir_mode env_ok \<noteq> 493"
  using makedirs_mode_is_decimal_755 [of world0 env_ok]
  by (simp add: world0_def env_ok_def octal_def)

text \<open>
  Claim C9. \<open>start_vnc\<close> does not look at the exit status of the hashing utility. When
  the utility is run (the password is set and can be encoded), exits with a nonzero
  status, and the other calls succeed, \<open>start_vnc\<close> returns, the credential file holds
  whatever was captured, and the display server is spawned and its handle stored. In
  every environment, replacing the exit status by any other changes nothing in the
  result.
\<close>

theorem start_vnc_ignores_hash_status:
  assumes "environ E ''VNCPASS'' = Some p"
    and "utf8 p = Some inp"
    and "run_result E vncpasswd_cmd (Some inp) = Inr c"
    and "returncode c \<noteq> 0"
    and "dir_ensurable E w"
    and "passwd_writable E w"
    and "popen_result E vncserver_cmd = Inr n"
  shows "fst (start_vnc E w) = Return () \<and>
         fs (snd (start_vnc E w)) vnc_passwd_file =
           Some (File (word_of_nat (octal [7, 0, 0])) (stdout c)) \<and>
         vnc (snd (start_vnc E w)) = Some \<lparr>pid = n\<rparr> \<and>
         Popen vncserver_cmd \<in> set (new_events w (snd (start_vnc E w))) \<and>
         start_vnc (with_returncode rc E) w = start_vnc E w"
  by (simp add: start_vnc_success [OF assms(1,2,3,5,6,7)] start_vnc_with_returncode
      after_start_vnc_def new_events_def start_vnc_trace_def)

theorem start_vnc_ignores_hash_status_witness:
  "returncode \<lparr>returncode = 1, stdout = []\<rparr> \<noteq> 0 \<and>
   fst (start_vnc env_hash_fails world0) = Return () \<and>
   fs (snd (start_vnc env_hash_fails world0)) vnc_passwd_file = Some (File 448 []) \<and>
   vnc (snd (start_vnc env_hash_fails world0)) = Some \<lparr>pid = 100\<rparr> \<and>
   Popen vncserver_cmd \<in> set (new_events world0 (snd (start_vnc env_hash_fails world0)))"
proof -
  have h: "environ env_hash_fails ''VNCPASS'' = Some (str_of ''secret'')"
    "utf8 (str_of ''secret'') = Some ''secret''"
    "run_result env_hash_fails vncpasswd_cmd (Some ''secret'') =
       Inr \<lparr>returncode = 1, stdout = []\<rparr>"
    "returncode \<lparr>returncode = 1, stdout = []\<rparr> \<noteq> 0"
    "dir_ensurable env_hash_fails world0"
    "passwd_writable env_hash_fails world0"
    "popen_result env_hash_fails vncserver_cmd = Inr 100"
    by (simp_all add: env_hash_fails_def env_ok_def dir_ensurable_def passwd_writable_def
        world0_def utf8_secret)
  show ?thesis
    using start_vnc_ignores_hash_status [OF h]
    by (simp add: octal_def)
qed

end
